theory Spec2Isabelle
  imports Main "HOL-Library.AList"
begin

section \<open>JavaScript values\<close>

text \<open>
  The configuration object of \<^verbatim>\<open>config.js\<close> is an untyped JavaScript object that
  \<^verbatim>\<open>Config.set\<close> can change to hold any value, so the code is modelled over a
  universe of JavaScript values: undefined, null, booleans, numbers, strings, functions,
  arrays and plain objects. An object-like value carries the association list of its own
  properties in insertion order, their keys pairwise distinct. Scope of the model:
  \<^item> numbers are integers (every number of the repository is one), so NaN appears only
    as the missing result of a numeric conversion;
  \<^item> strings are ASCII, one \<open>char\<close> per UTF-16 code unit;
  \<^item> a function value is opaque: a method or arrow function with its name, its declared
    parameter count and the properties assigned to it (it has no \<^verbatim>\<open>prototype\<close> property);
  \<^item> properties are writable data properties (no getters, no frozen objects);
  \<^item> values are trees: an assignment into a nested object is modelled by rebuilding the
    enclosing objects, and no two places of the tree alias one object;
  \<^item> the scripts run in sloppy mode (no file has a \<^verbatim>\<open>'use strict'\<close> directive);
  \<^item> the calls to \<^verbatim>\<open>Logger.log\<close> inside \<^verbatim>\<open>Config\<close> are left out: they change no
    value that \<^verbatim>\<open>Config\<close> computes.
\<close>

datatype js_error =
    TypeError (message: string)
  | RangeError (message: string)
  | Error (message: string)

datatype jsval =
    JUndefined
  | JNull
  | JBool bool
  | JNum int
  | JStr string
  | JFun string nat "(string \<times> jsval) list"
  | JArr nat "(string \<times> jsval) list"
  | JObj "(string \<times> jsval) list"

text \<open>
  Two parts of the JavaScript runtime are left open, as parameters that can be any
  function: the members that a value inherits from its prototype chain (\<^verbatim>\<open>toString\<close>,
  \<^verbatim>\<open>constructor\<close>, the array methods, ...), and the conversion to a number of a string,
  a function, an array or an object (parsing a numeral, calling \<^verbatim>\<open>valueOf\<close> and
  \<^verbatim>\<open>toString\<close>), which can throw and gives \<open>None\<close> for NaN.
\<close>

record runtime =
  inherited :: "jsval \<Rightarrow> string \<Rightarrow> jsval option"
  to_number :: "jsval \<Rightarrow> js_error + int option"

text \<open>\<^verbatim>\<open>typeof v\<close> and the truth value of \<^verbatim>\<open>v\<close> in a condition.\<close>

fun typeof :: "jsval \<Rightarrow> string" where
  "typeof JUndefined = ''undefined''"
| "typeof JNull = ''object''"
| "typeof (JBool b) = ''boolean''"
| "typeof (JNum n) = ''number''"
| "typeof (JStr s) = ''string''"
| "typeof (JFun nm ar ps) = ''function''"
| "typeof (JArr n ps) = ''object''"
| "typeof (JObj ps) = ''object''"

fun truthy :: "jsval \<Rightarrow> bool" where
  "truthy JUndefined = False"
| "truthy JNull = False"
| "truthy (JBool b) = b"
| "truthy (JNum n) = (n \<noteq> 0)"
| "truthy (JStr s) = (s \<noteq> [])"
| "truthy (JFun nm ar ps) = True"
| "truthy (JArr n ps) = True"
| "truthy (JObj ps) = True"

subsection \<open>Decimal numerals and array indices\<close>

definition digit_table :: "(char \<times> nat) list" where
  "digit_table =
     [(CHR ''0'', 0), (CHR ''1'', 1), (CHR ''2'', 2), (CHR ''3'', 3), (CHR ''4'', 4),
      (CHR ''5'', 5), (CHR ''6'', 6), (CHR ''7'', 7), (CHR ''8'', 8), (CHR ''9'', 9)]"

definition digit_of :: "char \<Rightarrow> nat option" where
  "digit_of c = map_of digit_table c"

definition digit_char :: "nat \<Rightarrow> char" where
  "digit_char d = ''0123456789'' ! d"

fun show_nat :: "nat \<Rightarrow> string" where
  "show_nat n = (if n < 10 then [digit_char n] else show_nat (n div 10) @ [digit_char (n mod 10)])"

declare show_nat.simps [simp del]

definition show_int :: "int \<Rightarrow> string" where
  "show_int i = (if i < 0 then CHR ''-'' # show_nat (nat (- i)) else show_nat (nat i))"

fun parse_digits :: "string \<Rightarrow> nat \<Rightarrow> nat option" where
  "parse_digits [] acc = Some acc"
| "parse_digits (c # cs) acc =
     (case digit_of c of None \<Rightarrow> None | Some d \<Rightarrow> parse_digits cs (10 * acc + d))"

text \<open>
  A property key is an array index when it is the canonical decimal numeral of an integer
  from 0 to \<open>2^32 - 2\<close>: no sign, no leading zero.
\<close>

definition index_of :: "string \<Rightarrow> nat option" where
  "index_of k =
     (case k of
        [] \<Rightarrow> None
      | c # cs \<Rightarrow>
          if c = CHR ''0'' \<and> cs \<noteq> [] then None
          else (case parse_digits k 0 of
                  None \<Rightarrow> None
                | Some n \<Rightarrow> if int n < 4294967295 then Some n else None))"

subsection \<open>Property access\<close>

text \<open>
  The own properties of a value, as a lookup: an array has its \<^verbatim>\<open>length\<close>, a function
  its \<^verbatim>\<open>name\<close> and \<^verbatim>\<open>length\<close>, a string its \<^verbatim>\<open>length\<close> and one character per index.
\<close>

fun own_lookup :: "jsval \<Rightarrow> string \<Rightarrow> jsval option" where
  "own_lookup (JObj ps) k = map_of ps k"
| "own_lookup (JArr n ps) k = (if k = ''length'' then Some (JNum (int n)) else map_of ps k)"
| "own_lookup (JFun nm ar ps) k =
     (if k = ''name'' then Some (JStr nm)
      else if k = ''length'' then Some (JNum (int ar))
      else map_of ps k)"
| "own_lookup (JStr s) k =
     (if k = ''length'' then Some (JNum (int (length s)))
      else (case index_of k of
              None \<Rightarrow> None
            | Some i \<Rightarrow> if i < length s then Some (JStr [s ! i]) else None))"
| "own_lookup v k = None"

text \<open>A property of a value: its own one, or else the one it inherits.\<close>

definition lookup :: "runtime \<Rightarrow> jsval \<Rightarrow> string \<Rightarrow> jsval option" where
  "lookup rt v k = (case own_lookup v k of Some x \<Rightarrow> Some x | None \<Rightarrow> inherited rt v k)"

text \<open>
  How an error message prints a key (in quotes) and the primitive value it complains
  about (no message of this model prints an object).
\<close>

definition quoted :: "string \<Rightarrow> string" where
  "quoted s = CHR 0x27 # s @ [CHR 0x27]"

fun display :: "jsval \<Rightarrow> string" where
  "display JUndefined = ''undefined''"
| "display JNull = ''null''"
| "display (JBool b) = (if b then ''true'' else ''false'')"
| "display (JNum n) = show_int n"
| "display (JStr s) = s"
| "display v = ''[object]''"

text \<open>\<^verbatim>\<open>key in v\<close>: a TypeError unless \<^verbatim>\<open>v\<close> is an object (null is not one).\<close>

fun js_in :: "runtime \<Rightarrow> string \<Rightarrow> jsval \<Rightarrow> js_error + bool" where
  "js_in rt k (JObj ps) = Inr (lookup rt (JObj ps) k \<noteq> None)"
| "js_in rt k (JArr n ps) = Inr (lookup rt (JArr n ps) k \<noteq> None)"
| "js_in rt k (JFun nm ar ps) = Inr (lookup rt (JFun nm ar ps) k \<noteq> None)"
| "js_in rt k v =
     Inl (TypeError (''Cannot use '' @ quoted ''in'' @ '' operator to search for '' @ quoted k
       @ '' in '' @ display v))"

text \<open>\<^verbatim>\<open>v[key]\<close> and \<^verbatim>\<open>v.key\<close>: a TypeError on undefined and null, otherwise the property
  or undefined.\<close>

fun js_member :: "runtime \<Rightarrow> jsval \<Rightarrow> string \<Rightarrow> js_error + jsval" where
  "js_member rt JUndefined k =
     Inl (TypeError (''Cannot read properties of undefined (reading '' @ quoted k @ '')''))"
| "js_member rt JNull k =
     Inl (TypeError (''Cannot read properties of null (reading '' @ quoted k @ '')''))"
| "js_member rt v k = Inr (case lookup rt v k of None \<Rightarrow> JUndefined | Some x \<Rightarrow> x)"

subsection \<open>Splitting a path\<close>

text \<open>\<^verbatim>\<open>path.split('.')\<close>: never empty; the empty string gives one empty key.\<close>

fun split_on :: "char \<Rightarrow> string \<Rightarrow> string list" where
  "split_on c [] = [[]]"
| "split_on c (x # xs) =
     (if x = c then [] # split_on c xs
      else (case split_on c xs of [] \<Rightarrow> [[x]] | w # ws \<Rightarrow> (x # w) # ws))"

definition split_dot :: "string \<Rightarrow> string list" where
  "split_dot path = split_on CHR ''.'' path"

section \<open>Config.get\<close>

text \<open>
  The loop of \<^verbatim>\<open>Config.get\<close> (config.js, lines 133 to 141). \<^verbatim>\<open>val\<close> is the source's
  \<^verbatim>\<open>value\<close>; the result is \<open>Inl\<close> when an operation of the loop throws.
\<close>

fun get_loop :: "runtime \<Rightarrow> jsval \<Rightarrow> string list \<Rightarrow> jsval \<Rightarrow> js_error + jsval" where
  "get_loop rt val [] defaultValue = Inr val"
| "get_loop rt val (key # keys) defaultValue =
     (if truthy val \<and> typeof val = ''object'' then
        (case js_in rt key val of
           Inl e \<Rightarrow> Inl e
         | Inr False \<Rightarrow> Inr defaultValue
         | Inr True \<Rightarrow>
             (case js_member rt val key of
                Inl e \<Rightarrow> Inl e
              | Inr v \<Rightarrow> get_loop rt v keys defaultValue))
      else Inr defaultValue)"

text \<open>
  \<^verbatim>\<open>get(path, defaultValue = null)\<close>: the parameter takes its default \<^verbatim>\<open>null\<close> when
  the argument is omitted or undefined; the \<^verbatim>\<open>catch\<close> turns every error of the body
  into \<^verbatim>\<open>defaultValue\<close>. A method returns \<open>Inr\<close> its value, or \<open>Inl\<close> the error it
  throws to its caller.
\<close>

definition default_parameter :: "jsval \<Rightarrow> jsval \<Rightarrow> jsval" where
  "default_parameter arg dflt = (if arg = JUndefined then dflt else arg)"

definition Config_get :: "runtime \<Rightarrow> jsval \<Rightarrow> string \<Rightarrow> jsval \<Rightarrow> js_error + jsval" where
  "Config_get rt this path arg =
     (let defaultValue = default_parameter arg JNull in
      case get_loop rt this (split_dot path) defaultValue of
        Inr v \<Rightarrow> Inr v
      | Inl e \<Rightarrow> Inr defaultValue)"

section \<open>Config.set\<close>

subsection \<open>Numeric conversion and assignment\<close>

text \<open>
  \<^verbatim>\<open>ToNumber\<close>: undefined is NaN (\<open>None\<close>), null is 0, a boolean is 0 or 1; the other
  conversions are the runtime's.
\<close>

fun ToNumber :: "runtime \<Rightarrow> jsval \<Rightarrow> js_error + int option" where
  "ToNumber rt JUndefined = Inr None"
| "ToNumber rt JNull = Inr (Some 0)"
| "ToNumber rt (JBool b) = Inr (Some (if b then 1 else 0))"
| "ToNumber rt (JNum n) = Inr (Some n)"
| "ToNumber rt v = to_number rt v"

text \<open>
  \<^verbatim>\<open>target[key] = x\<close> replaces the own property in place or adds it at the end. On
  undefined and null it is a TypeError; on a boolean, number or string it does nothing
  (sloppy mode), as on the \<^verbatim>\<open>name\<close> and \<^verbatim>\<open>length\<close> of a function. On an array, an
  index at or past the length extends the length, and \<^verbatim>\<open>length\<close> itself takes a
  number from 0 to \<open>2^32 - 1\<close>, dropping the elements at and past the new length, and is
  a RangeError otherwise. An assignment always writes an own property: the setter that
  \<^verbatim>\<open>Object.prototype\<close> has for the key \<^verbatim>\<open>__proto__\<close> is not modelled, and an object
  reached through an inherited property is not changed in place.
\<close>

definition array_set_length ::
  "runtime \<Rightarrow> nat \<Rightarrow> (string \<times> jsval) list \<Rightarrow> jsval \<Rightarrow> js_error + jsval" where
  "array_set_length rt n ps x =
     (case ToNumber rt x of
        Inl e \<Rightarrow> Inl e
      | Inr None \<Rightarrow> Inl (RangeError ''Invalid array length'')
      | Inr (Some m) \<Rightarrow>
          if 0 \<le> m \<and> m < 4294967296 then
            Inr (JArr (nat m)
              (filter (\<lambda>p. case index_of (fst p) of None \<Rightarrow> True | Some i \<Rightarrow> i < nat m) ps))
          else Inl (RangeError ''Invalid array length''))"

fun js_assign :: "runtime \<Rightarrow> jsval \<Rightarrow> string \<Rightarrow> jsval \<Rightarrow> js_error + jsval" where
  "js_assign rt JUndefined k x =
     Inl (TypeError (''Cannot set properties of undefined (setting '' @ quoted k @ '')''))"
| "js_assign rt JNull k x =
     Inl (TypeError (''Cannot set properties of null (setting '' @ quoted k @ '')''))"
| "js_assign rt (JObj ps) k x = Inr (JObj (AList.update k x ps))"
| "js_assign rt (JArr n ps) k x =
     (if k = ''length'' then array_set_length rt n ps x
      else (case index_of k of
              None \<Rightarrow> Inr (JArr n (AList.update k x ps))
            | Some i \<Rightarrow> Inr (JArr (max n (Suc i)) (AList.update k x ps))))"
| "js_assign rt (JFun nm ar ps) k x =
     (if k = ''name'' \<or> k = ''length'' then Inr (JFun nm ar ps)
      else Inr (JFun nm ar (AList.update k x ps)))"
| "js_assign rt v k x = Inr v"

text \<open>
  The model is a tree, so an object changed in place below \<^verbatim>\<open>parent[key]\<close> is put
  back under that key. Only a property that \<^verbatim>\<open>parent\<close> stores is replaced.
\<close>

definition replace_property :: "string \<Rightarrow> jsval \<Rightarrow> (string \<times> jsval) list \<Rightarrow> (string \<times> jsval) list" where
  "replace_property k x ps = map (\<lambda>p. if fst p = k then (k, x) else p) ps"

fun store_child :: "jsval \<Rightarrow> string \<Rightarrow> jsval \<Rightarrow> jsval" where
  "store_child (JObj ps) k x = JObj (replace_property k x ps)"
| "store_child (JArr n ps) k x = JArr n (replace_property k x ps)"
| "store_child (JFun nm ar ps) k x = JFun nm ar (replace_property k x ps)"
| "store_child v k x = v"

subsection \<open>The method\<close>

text \<open>
  The loop of \<^verbatim>\<open>Config.set\<close> and the final assignment (config.js, lines 159 to 166).
  \<^verbatim>\<open>val\<close> is the source's \<^verbatim>\<open>value\<close>; the result is the updated \<^verbatim>\<open>current\<close>. The test
  \<^verbatim>\<open>!(key in current) || typeof current[key] !== 'object'\<close> reads \<^verbatim>\<open>current[key]\<close> only
  when the key is there.
\<close>

fun set_loop :: "runtime \<Rightarrow> jsval \<Rightarrow> string list \<Rightarrow> string \<Rightarrow> jsval \<Rightarrow> js_error + jsval" where
  "set_loop rt current [] lastKey val = js_assign rt current lastKey val"
| "set_loop rt current (key # keys) lastKey val =
     (case js_in rt key current of
        Inl e \<Rightarrow> Inl e
      | Inr present \<Rightarrow>
          (case (if \<not> present then Inr True
                 else (case js_member rt current key of
                         Inl e \<Rightarrow> Inl e
                       | Inr c \<Rightarrow> Inr (typeof c \<noteq> ''object''))) of
             Inl e \<Rightarrow> Inl e
           | Inr fresh \<Rightarrow>
               (case (if fresh then js_assign rt current key (JObj []) else Inr current) of
                  Inl e \<Rightarrow> Inl e
                | Inr current1 \<Rightarrow>
                    (case js_member rt current1 key of
                       Inl e \<Rightarrow> Inl e
                     | Inr child \<Rightarrow>
                         (case set_loop rt child keys lastKey val of
                            Inl e \<Rightarrow> Inl e
                          | Inr child1 \<Rightarrow> Inr (store_child current1 key child1))))))"

text \<open>
  \<^verbatim>\<open>keys.pop()\<close> takes the last key off; on an empty array it would give undefined, which
  as a property key reads \<^verbatim>\<open>undefined\<close>.
\<close>

definition pop_key :: "string list \<Rightarrow> string \<times> string list" where
  "pop_key keys = (case rev keys of [] \<Rightarrow> (''undefined'', []) | k # ks \<Rightarrow> (k, rev ks))"

text \<open>
  \<^verbatim>\<open>set(path, value)\<close> returns the changed configuration object, or the error that the
  \<^verbatim>\<open>catch\<close> throws again.
\<close>

definition Config_set :: "runtime \<Rightarrow> jsval \<Rightarrow> string \<Rightarrow> jsval \<Rightarrow> js_error + jsval" where
  "Config_set rt this path val =
     (case pop_key (split_dot path) of
        (lastKey, keys) \<Rightarrow>
          (case set_loop rt this keys lastKey val of
             Inr this1 \<Rightarrow> Inr this1
           | Inl error \<Rightarrow> Inl error))"

section \<open>Config.validate\<close>

text \<open>
  \<^verbatim>\<open>Object.entries(v)\<close>: the own enumerable properties, those whose key is an array index
  first, by ascending index, then the others in insertion order. The \<^verbatim>\<open>length\<close> of an
  array, a string or a function and the \<^verbatim>\<open>name\<close> of a function are not enumerable.
\<close>

definition index_key :: "string \<times> jsval \<Rightarrow> nat" where
  "index_key p = (case index_of (fst p) of None \<Rightarrow> 0 | Some i \<Rightarrow> i)"

definition own_enumerable :: "(string \<times> jsval) list \<Rightarrow> (string \<times> jsval) list" where
  "own_enumerable ps =
     sort_key index_key (filter (\<lambda>p. index_of (fst p) \<noteq> None) ps)
     @ filter (\<lambda>p. index_of (fst p) = None) ps"

fun Object_entries :: "jsval \<Rightarrow> js_error + (string \<times> jsval) list" where
  "Object_entries JUndefined = Inl (TypeError ''Cannot convert undefined or null to object'')"
| "Object_entries JNull = Inl (TypeError ''Cannot convert undefined or null to object'')"
| "Object_entries (JBool b) = Inr []"
| "Object_entries (JNum n) = Inr []"
| "Object_entries (JStr s) = Inr (zip (map show_nat [0..<length s]) (map (\<lambda>c. JStr [c]) s))"
| "Object_entries (JFun nm ar ps) = Inr (own_enumerable ps)"
| "Object_entries (JArr n ps) = Inr (own_enumerable ps)"
| "Object_entries (JObj ps) = Inr (own_enumerable ps)"

text \<open>\<^verbatim>\<open>v <= 0\<close>: false when \<^verbatim>\<open>v\<close> converts to NaN.\<close>

definition js_le_zero :: "runtime \<Rightarrow> jsval \<Rightarrow> js_error + bool" where
  "js_le_zero rt v =
     (case ToNumber rt v of
        Inl e \<Rightarrow> Inl e
      | Inr None \<Rightarrow> Inr False
      | Inr (Some n) \<Rightarrow> Inr (n \<le> 0))"

text \<open>\<^verbatim>\<open>this.section.setting\<close>, the two reads in turn.\<close>

definition setting :: "runtime \<Rightarrow> jsval \<Rightarrow> string \<Rightarrow> string \<Rightarrow> js_error + jsval" where
  "setting rt this sect k =
     (case js_member rt this sect of
        Inl e \<Rightarrow> Inl e
      | Inr s \<Rightarrow> js_member rt s k)"

text \<open>
  The array \<^verbatim>\<open>errors\<close> lives outside the \<^verbatim>\<open>try\<close> block, so a step of the body yields
  the array as it stands and the error thrown, if one was.
  \<^verbatim>\<open>if (cond) { errors.push(msg) }\<close>, where evaluating \<^verbatim>\<open>cond\<close> can throw:
\<close>

type_synonym progress = "string list \<times> js_error option"

definition push_if :: "js_error + bool \<Rightarrow> string \<Rightarrow> string list \<Rightarrow> progress" where
  "push_if cond msg errors =
     (case cond of
        Inl e \<Rightarrow> (errors, Some e)
      | Inr b \<Rightarrow> (if b then errors @ [msg] else errors, None))"

definition and_then :: "progress \<Rightarrow> (string list \<Rightarrow> progress) \<Rightarrow> progress" where
  "and_then r f = (case r of (errors, Some e) \<Rightarrow> (errors, Some e) | (errors, None) \<Rightarrow> f errors)"

text \<open>The conditions of lines 254, 258, 262 and 266.\<close>

definition is_falsy :: "js_error + jsval \<Rightarrow> js_error + bool" where
  "is_falsy r = (case r of Inl e \<Rightarrow> Inl e | Inr v \<Rightarrow> Inr (\<not> truthy v))"

definition is_le_zero :: "runtime \<Rightarrow> js_error + jsval \<Rightarrow> js_error + bool" where
  "is_le_zero rt r = (case r of Inl e \<Rightarrow> Inl e | Inr v \<Rightarrow> js_le_zero rt v)"

definition validate_settings :: "runtime \<Rightarrow> jsval \<Rightarrow> string list \<Rightarrow> progress" where
  "validate_settings rt this errors =
     and_then (push_if (is_falsy (setting rt this ''CALENDAR'' ''PRIMARY_CALENDAR_ID''))
                 ''CALENDAR.PRIMARY_CALENDAR_ID is required'' errors) (\<lambda>errors.
     and_then (push_if (is_falsy (setting rt this ''SHEETS'' ''SPREADSHEET_NAME''))
                 ''SHEETS.SPREADSHEET_NAME is required'' errors) (\<lambda>errors.
     and_then (push_if (is_le_zero rt (setting rt this ''SYNC'' ''BATCH_SIZE''))
                 ''SYNC.BATCH_SIZE must be greater than 0'' errors) (\<lambda>errors.
     push_if (is_le_zero rt (setting rt this ''CALENDAR'' ''LOOK_AHEAD_DAYS''))
                 ''CALENDAR.LOOK_AHEAD_DAYS must be greater than 0'' errors)))"

text \<open>
  Line 272: \<^verbatim>\<open>!fieldConfig.column || !fieldConfig.name\<close>; the name is read only when the
  column is truthy.
\<close>

definition field_incomplete :: "runtime \<Rightarrow> jsval \<Rightarrow> js_error + bool" where
  "field_incomplete rt fieldConfig =
     (case js_member rt fieldConfig ''column'' of
        Inl e \<Rightarrow> Inl e
      | Inr c \<Rightarrow>
          if \<not> truthy c then Inr True
          else is_falsy (js_member rt fieldConfig ''name''))"

definition field_error :: "string \<Rightarrow> string" where
  "field_error fieldName = ''Custom field '' @ fieldName @ '' missing required properties''"

text \<open>The loop of lines 271 to 275 over the entries of \<^verbatim>\<open>this.CUSTOM_FIELDS\<close>.\<close>

fun validate_fields :: "runtime \<Rightarrow> (string \<times> jsval) list \<Rightarrow> string list \<Rightarrow> progress" where
  "validate_fields rt [] errors = (errors, None)"
| "validate_fields rt ((fieldName, fieldConfig) # rest) errors =
     and_then (push_if (field_incomplete rt fieldConfig) (field_error fieldName) errors)
       (validate_fields rt rest)"

definition validate_custom_fields :: "runtime \<Rightarrow> jsval \<Rightarrow> string list \<Rightarrow> progress" where
  "validate_custom_fields rt this errors =
     (case js_member rt this ''CUSTOM_FIELDS'' of
        Inl e \<Rightarrow> (errors, Some e)
      | Inr customFields \<Rightarrow>
          (case Object_entries customFields of
             Inl e \<Rightarrow> (errors, Some e)
           | Inr entries \<Rightarrow> validate_fields rt entries errors))"

text \<open>The \<^verbatim>\<open>try\<close> block of \<^verbatim>\<open>Config.validate\<close> (lines 252 to 276), from the empty array.\<close>

definition validate_body :: "runtime \<Rightarrow> jsval \<Rightarrow> progress" where
  "validate_body rt this =
     and_then (validate_settings rt this []) (validate_custom_fields rt this)"

text \<open>
  \<^verbatim>\<open>validate()\<close>: the \<^verbatim>\<open>catch\<close> pushes one more message and the array is returned.
\<close>

definition Config_validate :: "runtime \<Rightarrow> jsval \<Rightarrow> js_error + string list" where
  "Config_validate rt this =
     (case validate_body rt this of
        (errors, None) \<Rightarrow> Inr errors
      | (errors, Some error) \<Rightarrow>
          Inr (errors @ [''Configuration validation error: '' @ message error]))"

section \<open>The configuration object\<close>

text \<open>An array literal: its elements under the indices 0, 1, ...\<close>

definition array_literal :: "jsval list \<Rightarrow> jsval" where
  "array_literal xs = JArr (length xs) (zip (map show_nat [0..<length xs]) xs)"

text \<open>A method of an object literal: \<^verbatim>\<open>name(p1, ..., pn) { ... }\<close>.\<close>

definition method_literal :: "string \<Rightarrow> nat \<Rightarrow> string \<times> jsval" where
  "method_literal nm ar = (nm, JFun nm ar [])"

text \<open>The object literal \<^verbatim>\<open>Config\<close> of config.js (lines 6 to 283), section by section.\<close>

definition Config_APP :: jsval where
  "Config_APP = JObj
     [(''NAME'', JStr ''Calendar-Sheets Sync''),
      (''VERSION'', JStr ''1.0.0''),
      (''AUTHOR'', JStr ''Calendar Sync App'')]"

definition Config_CALENDAR :: jsval where
  "Config_CALENDAR = JObj
     [(''PRIMARY_CALENDAR_ID'', JStr ''primary''),
      (''TIME_ZONE'', JStr ''America/Los_Angeles''),
      (''MAX_EVENTS_PER_REQUEST'', JNum 2500),
      (''LOOK_AHEAD_DAYS'', JNum 365),
      (''LOOK_BACK_DAYS'', JNum 30)]"

definition Config_SHEETS :: jsval where
  "Config_SHEETS = JObj
     [(''SPREADSHEET_NAME'', JStr ''Calendar Sync Data''),
      (''WORKSHEET_NAME'', JStr ''Events''),
      (''HEADER_ROW'', JNum 1),
      (''DATA_START_ROW'', JNum 2),
      (''FREEZE_ROWS'', JNum 1),
      (''AUTO_RESIZE_COLUMNS'', JBool True)]"

definition Config_SYNC :: jsval where
  "Config_SYNC = JObj
     [(''BATCH_SIZE'', JNum 100),
      (''MAX_RETRIES'', JNum 3),
      (''RETRY_DELAY_MS'', JNum 1000),
      (''CONFLICT_RESOLUTION'', JStr ''LAST_WRITE_WINS''),
      (''SYNC_INTERVAL_MINUTES'', JNum 15),
      (''ENABLE_REAL_TIME'', JBool True)]"

definition Config_COLUMNS :: jsval where
  "Config_COLUMNS = JObj
     [(''EVENT_ID'', JStr ''A''),
      (''TITLE'', JStr ''B''),
      (''START_DATE'', JStr ''C''),
      (''START_TIME'', JStr ''D''),
      (''END_DATE'', JStr ''E''),
      (''END_TIME'', JStr ''F''),
      (''ALL_DAY'', JStr ''G''),
      (''DESCRIPTION'', JStr ''H''),
      (''LOCATION'', JStr ''I''),
      (''ATTENDEES'', JStr ''J''),
      (''RECURRENCE'', JStr ''K''),
      (''PRIORITY'', JStr ''L''),
      (''LAST_MODIFIED'', JStr ''M''),
      (''SYNC_STATUS'', JStr ''N''),
      (''NOTES'', JStr ''O'')]"

definition Config_HEADERS :: jsval where
  "Config_HEADERS = array_literal
     [JStr ''Event ID'',
      JStr ''Title'',
      JStr ''Start Date'',
      JStr ''Start Time'',
      JStr ''End Date'',
      JStr ''End Time'',
      JStr ''All Day'',
      JStr ''Description'',
      JStr ''Location'',
      JStr ''Attendees'',
      JStr ''Recurrence'',
      JStr ''Priority'',
      JStr ''Last Modified'',
      JStr ''Sync Status'',
      JStr ''Notes'']"

definition Config_CUSTOM_FIELDS :: jsval where
  "Config_CUSTOM_FIELDS = JObj
     [(''PRIORITY'', JObj
         [(''column'', JStr ''L''),
          (''name'', JStr ''Priority''),
          (''type'', JStr ''number''),
          (''min'', JNum 1),
          (''max'', JNum 5),
          (''default'', JNum 3),
          (''validation'', JStr ''Must be a number between 1 and 5'')]),
      (''NOTES'', JObj
         [(''column'', JStr ''O''),
          (''name'', JStr ''Notes''),
          (''type'', JStr ''text''),
          (''maxLength'', JNum 500),
          (''default'', JStr []),
          (''validation'', JStr ''Text up to 500 characters'')])]"

definition Config_ERROR :: jsval where
  "Config_ERROR = JObj
     [(''LOG_LEVEL'', JStr ''INFO''),
      (''MAX_LOG_ENTRIES'', JNum 1000),
      (''EMAIL_ON_ERROR'', JBool False),
      (''ERROR_EMAIL'', JStr []),
      (''SLACK_WEBHOOK'', JStr [])]"

definition Config_FEATURES :: jsval where
  "Config_FEATURES = JObj
     [(''MULTI_CALENDAR'', JBool False),
      (''ADVANCED_RECURRENCE'', JBool False),
      (''ATTENDEE_MANAGEMENT'', JBool True),
      (''CUSTOM_NOTIFICATIONS'', JBool False),
      (''ANALYTICS'', JBool False),
      (''EXPORT_IMPORT'', JBool False)]"

definition Config :: jsval where
  "Config = JObj
     [(''APP'', Config_APP),
      (''CALENDAR'', Config_CALENDAR),
      (''SHEETS'', Config_SHEETS),
      (''SYNC'', Config_SYNC),
      (''COLUMNS'', Config_COLUMNS),
      (''HEADERS'', Config_HEADERS),
      (''CUSTOM_FIELDS'', Config_CUSTOM_FIELDS),
      (''ERROR'', Config_ERROR),
      (''FEATURES'', Config_FEATURES),
      method_literal ''get'' 1,
      method_literal ''set'' 2,
      method_literal ''getUserConfig'' 1,
      method_literal ''setUserConfig'' 2,
      method_literal ''initializeUserConfig'' 0,
      method_literal ''validate'' 0]"

section \<open>What the claims about the configuration speak of\<close>

text \<open>
  The value that \<^verbatim>\<open>v[key]\<close> reads when it does not throw, and the values on which it
  throws.
\<close>

definition property :: "runtime \<Rightarrow> jsval \<Rightarrow> string \<Rightarrow> jsval" where
  "property rt v k = (case lookup rt v k of None \<Rightarrow> JUndefined | Some x \<Rightarrow> x)"

definition nullish :: "jsval \<Rightarrow> bool" where
  "nullish v = (v = JUndefined \<or> v = JNull)"

text \<open>
  An object in the sense of \<^verbatim>\<open>Config.get\<close>: a plain object or an array. Following a
  path key by key from a value gives the value reached, or nothing as soon as the current
  value is not an object or does not have the key.
\<close>

fun is_object :: "jsval \<Rightarrow> bool" where
  "is_object (JObj ps) = True"
| "is_object (JArr n ps) = True"
| "is_object v = False"

fun follow :: "runtime \<Rightarrow> jsval \<Rightarrow> string list \<Rightarrow> jsval option" where
  "follow rt v [] = Some v"
| "follow rt v (k # ks) =
     (if is_object v then (case lookup rt v k of None \<Rightarrow> None | Some x \<Rightarrow> follow rt x ks)
      else None)"

text \<open>The elements of an array, by index, and the keys that \<^verbatim>\<open>Object.entries\<close> lists.\<close>

fun array_elements :: "jsval \<Rightarrow> jsval list" where
  "array_elements (JArr n ps) =
     map (\<lambda>i. case map_of ps (show_nat i) of None \<Rightarrow> JUndefined | Some x \<Rightarrow> x) [0..<n]"
| "array_elements v = []"

definition entry_keys :: "jsval \<Rightarrow> js_error + string list" where
  "entry_keys v = (case Object_entries v of Inl e \<Rightarrow> Inl e | Inr es \<Rightarrow> Inr (map fst es))"

text \<open>
  The 15 column names as section 6 of the specification lists them, and the header texts
  as \<^verbatim>\<open>Config.HEADERS\<close> has them.
\<close>

definition contract_schema :: "string list" where
  "contract_schema =
     [''EventID'', ''Title'', ''StartDate'', ''StartTime'', ''EndDate'', ''EndTime'', ''AllDay'',
      ''Description'', ''Location'', ''Attendees'', ''Recurrence'', ''Priority'',
      ''LastModified'', ''SyncStatus'', ''Notes'']"

definition header_texts :: "string list" where
  "header_texts =
     [''Event ID'', ''Title'', ''Start Date'', ''Start Time'', ''End Date'', ''End Time'',
      ''All Day'', ''Description'', ''Location'', ''Attendees'', ''Recurrence'', ''Priority'',
      ''Last Modified'', ''Sync Status'', ''Notes'']"

definition without_spaces :: "string \<Rightarrow> string" where
  "without_spaces s = filter (\<lambda>c. c \<noteq> CHR '' '') s"

text \<open>
  A field definition lacks a property when it has none of that name or a falsy one (the
  empty string, 0, false, null, undefined).
\<close>

definition lacks :: "runtime \<Rightarrow> jsval \<Rightarrow> string \<Rightarrow> bool" where
  "lacks rt fieldConfig k = (\<not> truthy (property rt fieldConfig k))"

text \<open>
  The reads and comparisons of \<^verbatim>\<open>Config.validate\<close> before the loop over the custom
  fields complete: no section is null or undefined and no comparison throws.
\<close>

definition settings_readable :: "runtime \<Rightarrow> jsval \<Rightarrow> bool" where
  "settings_readable rt this =
     (\<not> nullish this
      \<and> \<not> nullish (property rt this ''CALENDAR'')
      \<and> \<not> nullish (property rt this ''SHEETS'')
      \<and> \<not> nullish (property rt this ''SYNC'')
      \<and> \<not> nullish (property rt this ''CUSTOM_FIELDS'')
      \<and> \<not> isl (js_le_zero rt (property rt (property rt this ''SYNC'') ''BATCH_SIZE''))
      \<and> \<not> isl (js_le_zero rt (property rt (property rt this ''CALENDAR'') ''LOOK_AHEAD_DAYS'')))"

text \<open>The four checked settings are complete; a field definition is complete.\<close>

definition settings_complete :: "runtime \<Rightarrow> jsval \<Rightarrow> bool" where
  "settings_complete rt this =
     (settings_readable rt this
      \<and> truthy (property rt (property rt this ''CALENDAR'') ''PRIMARY_CALENDAR_ID'')
      \<and> truthy (property rt (property rt this ''SHEETS'') ''SPREADSHEET_NAME'')
      \<and> js_le_zero rt (property rt (property rt this ''SYNC'') ''BATCH_SIZE'') = Inr False
      \<and> js_le_zero rt (property rt (property rt this ''CALENDAR'') ''LOOK_AHEAD_DAYS'') = Inr False)"

definition field_complete :: "runtime \<Rightarrow> jsval \<Rightarrow> bool" where
  "field_complete rt fieldConfig =
     (\<not> nullish fieldConfig \<and> \<not> lacks rt fieldConfig ''column'' \<and> \<not> lacks rt fieldConfig ''name'')"

text \<open>
  A path of keys stays within plain objects: from a plain object, each key is missing,
  or holds a value that is not of type \<^verbatim>\<open>'object'\<close> (and that \<^verbatim>\<open>Config.set\<close> replaces),
  or holds a plain object from which the rest of the path does so; no level is null or an
  array. A key names no inherited object when no value inherits under it a property of
  type \<^verbatim>\<open>'object'\<close> (as every object does under \<^verbatim>\<open>__proto__\<close>).
\<close>

fun plain_path :: "jsval \<Rightarrow> string list \<Rightarrow> bool" where
  "plain_path (JObj ps) [] = True"
| "plain_path (JObj ps) (k # ks) =
     (case map_of ps k of
        None \<Rightarrow> True
      | Some c \<Rightarrow> if typeof c = ''object'' then plain_path c ks else True)"
| "plain_path v ks = False"

definition inherits_no_object :: "runtime \<Rightarrow> string \<Rightarrow> bool" where
  "inherits_no_object rt k = (\<forall>v x. inherited rt v k = Some x \<longrightarrow> typeof x \<noteq> ''object'')"

text \<open>
  For closed examples: a runtime in which nothing is inherited and every conversion that
  the model leaves open gives NaN. The examples use no key that a prototype has.
\<close>

definition bare_runtime :: runtime where
  "bare_runtime = \<lparr> inherited = (\<lambda>v k. None), to_number = (\<lambda>v. Inr None) \<rparr>"

section \<open>main.js: the entry points\<close>

text \<open>
  \<^verbatim>\<open>performFullSync\<close> and \<^verbatim>\<open>onSheetEdit\<close> call services whose code is not part of the
  repository's files: \<^verbatim>\<open>SyncEngine\<close>, \<^verbatim>\<open>SheetsService\<close>, \<^verbatim>\<open>ErrorHandler\<close>, and the
  built-in \<^verbatim>\<open>Logger\<close> and \<^verbatim>\<open>JSON\<close>. They are parameters of the model: each service
  acts on a world \<open>'w\<close> (the calendar, the sheet, the sync state, the logs) and either
  returns a value or throws. \<^verbatim>\<open>Logger.log\<close> does not throw. What is thrown is an error
  object with a \<^verbatim>\<open>message\<close>.
\<close>

record 'w services =
  Logger_log :: "string \<Rightarrow> 'w \<Rightarrow> 'w"
  SheetsService_isEditInSyncRange :: "jsval \<Rightarrow> 'w \<Rightarrow> (js_error + jsval) \<times> 'w"
  SyncEngine_syncSheetsToCalendar :: "jsval \<Rightarrow> 'w \<Rightarrow> (js_error + jsval) \<times> 'w"
  SyncEngine_performFullSync :: "'w \<Rightarrow> (js_error + jsval) \<times> 'w"
  ErrorHandler_handleError :: "string \<Rightarrow> js_error \<Rightarrow> 'w \<Rightarrow> (js_error + jsval) \<times> 'w"
  JSON_stringify :: "jsval \<Rightarrow> js_error + string"

text \<open>
  The model keeps the list of the service calls an entry point has made, in order, beside
  the world.
\<close>

datatype call =
    LogCall string
  | IsEditInSyncRangeCall jsval
  | SyncSheetsToCalendarCall jsval
  | PerformFullSyncCall
  | HandleErrorCall string js_error

type_synonym 'w state = "call list \<times> 'w"

definition call_log :: "'w services \<Rightarrow> string \<Rightarrow> 'w state \<Rightarrow> 'w state" where
  "call_log svc msg st = (fst st @ [LogCall msg], Logger_log svc msg (snd st))"

definition invoke :: "call \<Rightarrow> ('w \<Rightarrow> 'a \<times> 'w) \<Rightarrow> 'w state \<Rightarrow> 'a \<times> 'w state" where
  "invoke c f st = (case f (snd st) of (r, w) \<Rightarrow> (r, (fst st @ [c], w)))"

text \<open>
  The first two statements of both \<^verbatim>\<open>catch\<close> blocks: log the failure, hand the error to
  \<^verbatim>\<open>ErrorHandler.handleError\<close>.
\<close>

definition report_failure ::
  "'w services \<Rightarrow> string \<Rightarrow> string \<Rightarrow> js_error \<Rightarrow> 'w state \<Rightarrow> (js_error + jsval) \<times> 'w state" where
  "report_failure svc label fn error st =
     invoke (HandleErrorCall fn error) (ErrorHandler_handleError svc fn error)
       (call_log svc (label @ message error) st)"

subsection \<open>performFullSync (lines 42 to 56)\<close>

definition performFullSync_try :: "'w services \<Rightarrow> 'w state \<Rightarrow> (js_error + jsval) \<times> 'w state" where
  "performFullSync_try svc st =
     (case invoke PerformFullSyncCall (SyncEngine_performFullSync svc)
             (call_log svc ''Starting full sync...'' st) of
        (Inl error, st2) \<Rightarrow> (Inl error, st2)
      | (Inr syncResult, st2) \<Rightarrow>
          (case JSON_stringify svc syncResult of
             Inl error \<Rightarrow> (Inl error, st2)
           | Inr s \<Rightarrow> (Inr syncResult, call_log svc (''Full sync completed: '' @ s) st2)))"

text \<open>The \<^verbatim>\<open>catch\<close> block ends with \<^verbatim>\<open>throw error\<close>.\<close>

definition performFullSync :: "'w services \<Rightarrow> 'w state \<Rightarrow> (js_error + jsval) \<times> 'w state" where
  "performFullSync svc st =
     (case performFullSync_try svc st of
        (Inr syncResult, st1) \<Rightarrow> (Inr syncResult, st1)
      | (Inl error, st1) \<Rightarrow>
          (case report_failure svc ''Full sync failed: '' ''performFullSync'' error st1 of
             (Inl error2, st2) \<Rightarrow> (Inl error2, st2)
           | (Inr handled, st2) \<Rightarrow> (Inl error, st2)))"

subsection \<open>onSheetEdit (lines 81 to 100)\<close>

definition onSheetEdit_try ::
  "'w services \<Rightarrow> jsval \<Rightarrow> 'w state \<Rightarrow> (js_error + jsval) \<times> 'w state" where
  "onSheetEdit_try svc e st =
     (case invoke (IsEditInSyncRangeCall e) (SheetsService_isEditInSyncRange svc e)
             (call_log svc ''Sheet edit detected'' st) of
        (Inl error, st2) \<Rightarrow> (Inl error, st2)
      | (Inr inRange, st2) \<Rightarrow>
          if \<not> truthy inRange then
            (Inr JUndefined, call_log svc ''Edit outside sync range, ignoring'' st2)
          else
            (case invoke (SyncSheetsToCalendarCall e) (SyncEngine_syncSheetsToCalendar svc e) st2 of
               (Inl error, st3) \<Rightarrow> (Inl error, st3)
             | (Inr syncResult, st3) \<Rightarrow>
                 (case JSON_stringify svc syncResult of
                    Inl error \<Rightarrow> (Inl error, st3)
                  | Inr s \<Rightarrow>
                      (Inr syncResult, call_log svc (''Sheet sync completed: '' @ s) st3))))"

text \<open>The \<^verbatim>\<open>catch\<close> block does not throw again: the function then returns undefined.\<close>

definition onSheetEdit ::
  "'w services \<Rightarrow> jsval \<Rightarrow> 'w state \<Rightarrow> (js_error + jsval) \<times> 'w state" where
  "onSheetEdit svc e st =
     (case onSheetEdit_try svc e st of
        (Inr r, st1) \<Rightarrow> (Inr r, st1)
      | (Inl error, st1) \<Rightarrow>
          (case report_failure svc ''Sheet sync failed: '' ''onSheetEdit'' error st1 of
             (Inl error2, st2) \<Rightarrow> (Inl error2, st2)
           | (Inr handled, st2) \<Rightarrow> (Inr JUndefined, st2)))"

subsection \<open>Services for closed examples\<close>

text \<open>
  A world that records the edit events the engine has synced. The range check reads the
  event's \<^verbatim>\<open>inRange\<close> property, the sheet sync records the event, the full pass fails
  with a quota error, and the error handler returns.
\<close>

definition example_services :: "jsval list services" where
  "example_services =
     \<lparr> Logger_log = (\<lambda>msg w. w),
       SheetsService_isEditInSyncRange = (\<lambda>e w. (Inr (property bare_runtime e ''inRange''), w)),
       SyncEngine_syncSheetsToCalendar = (\<lambda>e w. (Inr (JObj [(''updated'', JNum 1)]), w @ [e])),
       SyncEngine_performFullSync =
         (\<lambda>w. (Inl (Error ''Service invoked too many times for one day: calendar.''), w)),
       ErrorHandler_handleError = (\<lambda>fn error w. (Inr JUndefined, w)),
       JSON_stringify = (\<lambda>v. Inr ''{}'') \<rparr>"

definition outside_edit :: jsval where
  "outside_edit = JObj [(''inRange'', JBool False)]"

section \<open>The conflict resolver\<close>

text \<open>
  Modelled from the spec: the Conflict Resolver of section 4.4 and the record and
  operation shapes of sections 3 and 4.3. The repository's files hold no resolver:
  \<^verbatim>\<open>main.js\<close> calls \<^verbatim>\<open>SyncEngine\<close>, whose code is missing. A status \<^verbatim>\<open>CONFLICT\<close> of a
  record is written \<open>IN_CONFLICT\<close> here, to keep it apart from the operation kind.
\<close>

datatype sync_status = SYNCED | PENDING | IN_CONFLICT | ERROR | DELETED

record SyncRecord =
  record_id :: string
  title :: string
  description :: string
  location :: string
  startAt :: int
  endAt :: int
  allDay :: bool
  attendees :: "string list"
  recurrenceRule :: "string option"
  extensions :: "(string \<times> jsval) list"
  lastModifiedAt :: int
  syncStatus :: sync_status

datatype side = Calendar | Sheet

datatype op_kind =
  CREATE_ON_SHEET | CREATE_ON_CALENDAR | UPDATE | DELETE_ON_SHEET | DELETE_ON_CALENDAR | CONFLICT

text \<open>
  An operation \<^verbatim>\<open>{id, kind, source, target}\<close>. Source and target are a side with its
  record; a \<^verbatim>\<open>CONFLICT\<close> carries the calendar-side and the sheet-side record of one id, in
  either order.
\<close>

record ChangeOp =
  op_id :: string
  kind :: op_kind
  source :: "side \<times> SyncRecord"
  target :: "side \<times> SyncRecord"

datatype strategy = LAST_WRITE_WINS | CALENDAR_WINS | SHEETS_WINS

definition is_conflict :: "ChangeOp \<Rightarrow> bool" where
  "is_conflict op =
     (kind op = CONFLICT
      \<and> fst (source op) \<noteq> fst (target op)
      \<and> record_id (snd (source op)) = op_id op
      \<and> record_id (snd (target op)) = op_id op)"

definition side_record :: "side \<Rightarrow> ChangeOp \<Rightarrow> SyncRecord" where
  "side_record sd op = (if fst (source op) = sd then snd (source op) else snd (target op))"

definition other_side :: "side \<Rightarrow> side" where
  "other_side sd = (case sd of Calendar \<Rightarrow> Sheet | Sheet \<Rightarrow> Calendar)"

text \<open>
  Modelled from the spec: the choice of the winning side (section 4.4; the repository
  has no resolver code). Under \<^verbatim>\<open>LAST_WRITE_WINS\<close> it is the side with the larger
  \<^verbatim>\<open>lastModifiedAt\<close>, the calendar on a tie; \<^verbatim>\<open>CALENDAR_WINS\<close> and \<^verbatim>\<open>SHEETS_WINS\<close>
  pick their side whatever the timestamps.
\<close>

definition winner :: "strategy \<Rightarrow> ChangeOp \<Rightarrow> side" where
  "winner strat op =
     (case strat of
        CALENDAR_WINS \<Rightarrow> Calendar
      | SHEETS_WINS \<Rightarrow> Sheet
      | LAST_WRITE_WINS \<Rightarrow>
          if lastModifiedAt (side_record Calendar op) < lastModifiedAt (side_record Sheet op)
          then Sheet else Calendar)"

text \<open>
  Modelled from the spec: \<^verbatim>\<open>resolve(op, strategy)\<close> of section 4.4 (the repository has
  no resolver code). It gives an \<^verbatim>\<open>UPDATE\<close> toward the losing side with the winner's
  content, its \<^verbatim>\<open>syncStatus\<close> set to \<^verbatim>\<open>SYNCED\<close>; nothing for an operation that is not a
  conflict.
\<close>

definition resolve :: "ChangeOp \<Rightarrow> strategy \<Rightarrow> ChangeOp option" where
  "resolve op strat =
     (if is_conflict op then
        (let w = winner strat op in
         Some \<lparr> op_id = op_id op,
                kind = UPDATE,
                source = (w, (side_record w op)\<lparr> syncStatus := SYNCED \<rparr>),
                target = (other_side w, side_record (other_side w) op) \<rparr>)
      else None)"

definition example_record :: "int \<Rightarrow> string \<Rightarrow> SyncRecord" where
  "example_record t ttl =
     \<lparr> record_id = ''E1'', title = ttl, description = [], location = [], startAt = 0,
       endAt = 3600, allDay = False, attendees = [], recurrenceRule = None, extensions = [],
       lastModifiedAt = t, syncStatus = IN_CONFLICT \<rparr>"

definition example_conflict :: ChangeOp where
  "example_conflict =
     \<lparr> op_id = ''E1'', kind = CONFLICT,
       source = (Sheet, example_record 100 ''from the sheet''),
       target = (Calendar, example_record 200 ''from the calendar'') \<rparr>"

section \<open>The sync lock of the orchestrator\<close>

text \<open>
  Modelled from the spec: the lock store of sections 5 and 6 and the \<^verbatim>\<open>ACQUIRING_LOCK\<close>
  step of section 4.6. The repository's files hold no lock code. The lock is free or
  holds the time at which it was taken; \<^verbatim>\<open>tryAcquire\<close> takes a free lock, reclaims one
  held for the maximum hold duration \<open>ttl\<close> or longer, and fails otherwise, at once.
\<close>

type_synonym lock = "int option"

text \<open>
  Modelled from the spec: \<^verbatim>\<open>tryAcquire(key, ttl)\<close> and \<^verbatim>\<open>release(key)\<close> of the lock
  store (sections 5 and 6; the repository has no lock code), for the one key of the sync
  lock, at the time \<open>now\<close>.
\<close>

definition tryAcquire :: "int \<Rightarrow> int \<Rightarrow> lock \<Rightarrow> bool \<times> lock" where
  "tryAcquire now ttl l =
     (case l of
        None \<Rightarrow> (True, Some now)
      | Some taken \<Rightarrow> if taken + ttl \<le> now then (True, Some now) else (False, Some taken))"

definition release :: "lock \<Rightarrow> lock" where
  "release l = None"

definition lock_held :: "int \<Rightarrow> int \<Rightarrow> lock \<Rightarrow> bool" where
  "lock_held now ttl l = (case l of None \<Rightarrow> False | Some taken \<Rightarrow> now < taken + ttl)"

datatype pass_status = COMPLETED | SKIPPED_CONCURRENT_RUN | FAILED string

record summary =
  status :: pass_status
  created :: nat
  updated :: nat
  deleted :: nat
  conflicts :: nat
  errors :: nat
  skipped :: nat

text \<open>
  The state that passes share: the lock, the mapping and the cursor. The steps that a
  pass runs while it holds the lock (load, diff, resolve, write, commit) are a parameter.
\<close>

record ('m, 'c) shared =
  sync_lock :: lock
  mapping :: 'm
  cursor :: 'c

definition skipped_summary :: summary where
  "skipped_summary =
     \<lparr> status = SKIPPED_CONCURRENT_RUN, created = 0, updated = 0, deleted = 0,
       conflicts = 0, errors = 0, skipped = 0 \<rparr>"

text \<open>
  Modelled from the spec: the \<^verbatim>\<open>ACQUIRING_LOCK\<close> step of a pass (section 4.6; the
  repository has no orchestrator code). A pass that does not get the lock ends at once
  with the summary \<^verbatim>\<open>SKIPPED_CONCURRENT_RUN\<close>; one that gets it runs its steps and
  releases the lock.
\<close>

definition runFullPass ::
  "int \<Rightarrow> int \<Rightarrow> ('m \<times> 'c \<Rightarrow> summary \<times> 'm \<times> 'c) \<Rightarrow> ('m, 'c) shared
     \<Rightarrow> summary \<times> ('m, 'c) shared" where
  "runFullPass now ttl pipeline st =
     (case tryAcquire now ttl (sync_lock st) of
        (False, l) \<Rightarrow> (skipped_summary, st)
      | (True, l) \<Rightarrow>
          (case pipeline (mapping st, cursor st) of
             (s, m, c) \<Rightarrow> (s, \<lparr> sync_lock = release l, mapping = m, cursor = c \<rparr>)))"

section \<open>Configurations for closed examples\<close>

text \<open>
  \<^verbatim>\<open>Config\<close> after \<^verbatim>\<open>Config.set('CUSTOM_FIELDS.EXTRA.column', 'P')\<close>: a field with a column
  and no name.
\<close>

definition or_undefined :: "js_error + jsval \<Rightarrow> jsval" where
  "or_undefined r = (case r of Inl e \<Rightarrow> JUndefined | Inr v \<Rightarrow> v)"

definition Config_extra_field :: jsval where
  "Config_extra_field =
     or_undefined (Config_set bare_runtime Config ''CUSTOM_FIELDS.EXTRA.column'' (JStr ''P''))"

text \<open>
  \<^verbatim>\<open>Config\<close> after \<^verbatim>\<open>Config.set('CUSTOM_FIELDS.BROKEN', null)\<close> and then
  \<^verbatim>\<open>Config.set('CUSTOM_FIELDS.EXTRA.column', 'P')\<close>.
\<close>

definition Config_broken_field :: jsval where
  "Config_broken_field =
     or_undefined (Config_set bare_runtime
       (or_undefined (Config_set bare_runtime Config ''CUSTOM_FIELDS.BROKEN'' JNull))
       ''CUSTOM_FIELDS.EXTRA.column'' (JStr ''P''))"

text \<open>\<^verbatim>\<open>Config\<close> after \<^verbatim>\<open>Config.set('CALENDAR.TIME_ZONE', null)\<close>.\<close>

definition Config_null_zone :: jsval where
  "Config_null_zone =
     or_undefined (Config_set bare_runtime Config ''CALENDAR.TIME_ZONE'' JNull)"

section \<open>Config.get follows the path\<close>

lemma guard_is_object: "(truthy v \<and> typeof v = ''object'') = is_object v"
  by (cases v) simp_all

lemma js_in_object: "is_object v \<Longrightarrow> js_in rt k v = Inr (lookup rt v k \<noteq> None)"
  by (cases v) simp_all

lemma js_member_not_nullish: "\<not> nullish v \<Longrightarrow> js_member rt v k = Inr (property rt v k)"
  by (cases v) (simp_all add: property_def nullish_def)

lemma is_object_not_nullish: "is_object v \<Longrightarrow> \<not> nullish v"
  by (cases v) (simp_all add: nullish_def)

lemma get_loop_follow:
  "get_loop rt v ks d = Inr (case follow rt v ks of Some x \<Rightarrow> x | None \<Rightarrow> d)"
proof (induction ks arbitrary: v)
  case Nil
  show ?case by simp
next
  case (Cons k ks)
  show ?case
  proof (cases "is_object v")
    case False
    then show ?thesis by (simp add: guard_is_object)
  next
    case True
    show ?thesis
    proof (cases "lookup rt v k")
      case None
      with True show ?thesis by (simp add: guard_is_object js_in_object)
    next
      case (Some x)
      with True show ?thesis
        by (simp add: guard_is_object js_in_object js_member_not_nullish is_object_not_nullish
            property_def Cons.IH)
    qed
  qed
qed

text \<open>
  Claim C8, as the code has it. \<^verbatim>\<open>Config.get(path, defaultValue)\<close> never throws. When
  every key of the dot-separated path is a property of the object reached so far, it
  returns the value that the path leads to; as soon as a key is absent or the current
  value is not an object (null included), it returns the parameter \<^verbatim>\<open>defaultValue\<close>,
  which is the argument, or \<^verbatim>\<open>null\<close> when the argument is omitted or undefined.
\<close>

theorem get_follows_path:
  "Config_get rt this path arg =
     Inr (case follow rt this (split_dot path) of
            Some v \<Rightarrow> v
          | None \<Rightarrow> default_parameter arg JNull)"
  by (simp add: Config_get_def get_loop_follow)

text \<open>
  The claim as stated fails for the default value undefined: \<^verbatim>\<open>Config.get('MISSING',
  undefined)\<close> returns \<^verbatim>\<open>null\<close>.
\<close>

theorem get_undefined_default_gives_null:
  "follow bare_runtime Config (split_dot ''MISSING'') = None
   \<and> Config_get bare_runtime Config ''MISSING'' JUndefined = Inr JNull
   \<and> Config_get bare_runtime Config ''MISSING'' JUndefined \<noteq> Inr JUndefined"
  by code_simp

section \<open>The constants of the configuration\<close>

text \<open>
  Claim C7, as the code has it. The sheet has 15 columns, A to O, in the order of the
  contract. The header texts are those of \<^verbatim>\<open>Config.HEADERS\<close>: the names of the contract
  with the words set apart by a space (\<^verbatim>\<open>Event ID\<close>, \<^verbatim>\<open>Start Date\<close>, ...), so taking the
  spaces out of them gives the names of the contract.
\<close>

theorem sheet_layout:
  "Config_get rt Config ''HEADERS'' JNull = Inr Config_HEADERS
   \<and> array_elements Config_HEADERS = map JStr header_texts
   \<and> length header_texts = 15
   \<and> map without_spaces header_texts = contract_schema
   \<and> Config_get rt Config ''COLUMNS'' JNull = Inr Config_COLUMNS
   \<and> Object_entries Config_COLUMNS =
       Inr (zip [''EVENT_ID'', ''TITLE'', ''START_DATE'', ''START_TIME'', ''END_DATE'', ''END_TIME'',
                 ''ALL_DAY'', ''DESCRIPTION'', ''LOCATION'', ''ATTENDEES'', ''RECURRENCE'',
                 ''PRIORITY'', ''LAST_MODIFIED'', ''SYNC_STATUS'', ''NOTES'']
                (map (\<lambda>c. JStr [c]) ''ABCDEFGHIJKLMNO''))"
  by code_simp

text \<open>The header texts are not the names of the contract verbatim: the first one differs.\<close>

theorem headers_differ_from_contract:
  "Config_get bare_runtime Config ''HEADERS.0'' JNull = Inr (JStr ''Event ID'')
   \<and> contract_schema ! 0 = ''EventID''
   \<and> array_elements Config_HEADERS \<noteq> map JStr contract_schema"
  by code_simp

text \<open>
  Claim C6. \<^verbatim>\<open>Config.CUSTOM_FIELDS\<close> declares exactly two fields: \<^verbatim>\<open>PRIORITY\<close>, of type
  number, with minimum 1, maximum 5 and default 3, and \<^verbatim>\<open>NOTES\<close>, of type text, with
  maximum length 500 and the empty string as default. Each has a column and a name.
\<close>

theorem custom_fields_declared:
  "Config_get rt Config ''CUSTOM_FIELDS'' JNull = Inr Config_CUSTOM_FIELDS
   \<and> entry_keys Config_CUSTOM_FIELDS = Inr [''PRIORITY'', ''NOTES'']
   \<and> Config_get rt Config ''CUSTOM_FIELDS.PRIORITY.type'' JNull = Inr (JStr ''number'')
   \<and> Config_get rt Config ''CUSTOM_FIELDS.PRIORITY.min'' JNull = Inr (JNum 1)
   \<and> Config_get rt Config ''CUSTOM_FIELDS.PRIORITY.max'' JNull = Inr (JNum 5)
   \<and> Config_get rt Config ''CUSTOM_FIELDS.PRIORITY.default'' JNull = Inr (JNum 3)
   \<and> Config_get rt Config ''CUSTOM_FIELDS.PRIORITY.column'' JNull = Inr (JStr ''L'')
   \<and> Config_get rt Config ''CUSTOM_FIELDS.PRIORITY.name'' JNull = Inr (JStr ''Priority'')
   \<and> Config_get rt Config ''CUSTOM_FIELDS.NOTES.type'' JNull = Inr (JStr ''text'')
   \<and> Config_get rt Config ''CUSTOM_FIELDS.NOTES.maxLength'' JNull = Inr (JNum 500)
   \<and> Config_get rt Config ''CUSTOM_FIELDS.NOTES.default'' JNull = Inr (JStr [])
   \<and> Config_get rt Config ''CUSTOM_FIELDS.NOTES.column'' JNull = Inr (JStr ''O'')
   \<and> Config_get rt Config ''CUSTOM_FIELDS.NOTES.name'' JNull = Inr (JStr ''Notes'')"
  by code_simp

section \<open>Config.validate\<close>

lemma field_incomplete_lacks:
  "\<not> nullish fc \<Longrightarrow>
   field_incomplete rt fc = Inr (lacks rt fc ''column'' \<or> lacks rt fc ''name'')"
  by (simp add: field_incomplete_def js_member_not_nullish is_falsy_def lacks_def)

lemma validate_fields_grows: "set errs \<subseteq> set (fst (validate_fields rt fs errs))"
proof (induction fs arbitrary: errs)
  case Nil
  show ?case by simp
next
  case (Cons f fs)
  obtain n fc where f: "f = (n, fc)" by (cases f)
  show ?case
  proof (cases "field_incomplete rt fc")
    case (Inl e)
    then show ?thesis by (simp add: f push_if_def and_then_def)
  next
    case (Inr b)
    have "set errs \<subseteq> set (if b then errs @ [field_error n] else errs)" by auto
    also have "\<dots> \<subseteq> set (fst (validate_fields rt fs (if b then errs @ [field_error n] else errs)))"
      by (rule Cons.IH)
    finally show ?thesis using Inr by (simp add: f push_if_def and_then_def)
  qed
qed

lemma validate_fields_reports:
  assumes "\<forall>p \<in> set before. \<not> nullish (snd p)"
    and "\<not> nullish fc"
    and "lacks rt fc ''column'' \<or> lacks rt fc ''name''"
  shows "field_error n \<in> set (fst (validate_fields rt (before @ (n, fc) # after) errs))"
  using assms(1)
proof (induction before arbitrary: errs)
  case Nil
  have "field_error n \<in> set (errs @ [field_error n])" by simp
  then have "field_error n \<in> set (fst (validate_fields rt after (errs @ [field_error n])))"
    using validate_fields_grows by blast
  then show ?case
    using assms(2,3) by (simp add: field_incomplete_lacks push_if_def and_then_def)
next
  case (Cons f before)
  obtain m fc' where f: "f = (m, fc')" by (cases f)
  from Cons.prems have nn: "\<not> nullish fc'" and rest: "\<forall>p \<in> set before. \<not> nullish (snd p)"
    by (simp_all add: f)
  show ?case
    using Cons.IH [OF rest] nn
    by (simp add: f field_incomplete_lacks push_if_def and_then_def)
qed

lemma validate_fields_complete:
  "\<forall>p \<in> set fs. field_complete rt (snd p) \<Longrightarrow> validate_fields rt fs errs = (errs, None)"
proof (induction fs arbitrary: errs)
  case Nil
  show ?case by simp
next
  case (Cons f fs)
  obtain n fc where f: "f = (n, fc)" by (cases f)
  from Cons.prems have c: "field_complete rt fc"
    and rest: "\<forall>p \<in> set fs. field_complete rt (snd p)"
    by (simp_all add: f)
  from c show ?case
    by (simp add: f field_complete_def field_incomplete_lacks push_if_def and_then_def
        Cons.IH [OF rest])
qed

lemma setting_readable:
  "\<not> nullish this \<Longrightarrow> \<not> nullish (property rt this s) \<Longrightarrow>
   setting rt this s k = Inr (property rt (property rt this s) k)"
  by (simp add: setting_def js_member_not_nullish)

lemma not_isl_Inr: "\<not> isl r \<Longrightarrow> \<exists>b. r = Inr b"
  by (cases r) simp_all

lemma validate_settings_readable:
  assumes "settings_readable rt this"
  shows "snd (validate_settings rt this []) = None"
proof -
  from assms obtain b1 where
    b1: "js_le_zero rt (property rt (property rt this ''SYNC'') ''BATCH_SIZE'') = Inr b1"
    unfolding settings_readable_def using not_isl_Inr by blast
  from assms obtain b2 where
    b2: "js_le_zero rt (property rt (property rt this ''CALENDAR'') ''LOOK_AHEAD_DAYS'') = Inr b2"
    unfolding settings_readable_def using not_isl_Inr by blast
  from assms b1 b2 show ?thesis
    by (simp add: settings_readable_def validate_settings_def setting_readable is_falsy_def
        is_le_zero_def push_if_def and_then_def)
qed

lemma validate_settings_complete:
  assumes "settings_complete rt this"
  shows "validate_settings rt this [] = ([], None)"
  using assms
  by (simp add: settings_complete_def settings_readable_def validate_settings_def
      setting_readable is_falsy_def is_le_zero_def push_if_def and_then_def)

lemma validate_never_throws: "\<exists>errs. Config_validate rt this = Inr errs"
  by (cases "validate_body rt this") (auto simp: Config_validate_def split: option.splits)

lemma custom_fields_entries:
  assumes "\<not> nullish this"
    and "Object_entries (property rt this ''CUSTOM_FIELDS'') = Inr fs"
  shows "validate_custom_fields rt this errs = validate_fields rt fs errs"
  using assms by (simp add: validate_custom_fields_def js_member_not_nullish)

lemma validate_result_set:
  "Config_validate rt this = Inr errs \<Longrightarrow> set (fst (validate_body rt this)) \<subseteq> set errs"
  by (cases "validate_body rt this") (auto simp: Config_validate_def split: option.splits)

text \<open>
  Claim C5, as the code has it. \<^verbatim>\<open>Config.validate\<close> always returns a list and never
  throws. A custom field that lacks a column or a name has an error naming it in the
  list, provided the checks up to it complete: the sections read are neither null nor
  undefined, the two comparisons do not throw, and neither the definition of that field
  nor one enumerated before it is null or undefined. When the four settings are complete
  and every field definition is complete, the list is empty.
\<close>

theorem validate_reports:
  "(\<exists>errs. Config_validate rt this = Inr errs)
   \<and> (settings_readable rt this
        \<and> Object_entries (property rt this ''CUSTOM_FIELDS'')
            = Inr (before @ (fieldName, fieldConfig) # after)
        \<and> (\<forall>p \<in> set before. \<not> nullish (snd p))
        \<and> \<not> nullish fieldConfig
        \<and> (lacks rt fieldConfig ''column'' \<or> lacks rt fieldConfig ''name'')
      \<longrightarrow> (\<exists>errs. Config_validate rt this = Inr errs \<and> field_error fieldName \<in> set errs))
   \<and> (settings_complete rt this
        \<and> Object_entries (property rt this ''CUSTOM_FIELDS'') = Inr fs
        \<and> (\<forall>p \<in> set fs. field_complete rt (snd p))
      \<longrightarrow> Config_validate rt this = Inr [])"
proof (intro conjI impI)
  show "\<exists>errs. Config_validate rt this = Inr errs" by (rule validate_never_throws)
next
  assume a: "settings_readable rt this
        \<and> Object_entries (property rt this ''CUSTOM_FIELDS'')
            = Inr (before @ (fieldName, fieldConfig) # after)
        \<and> (\<forall>p \<in> set before. \<not> nullish (snd p))
        \<and> \<not> nullish fieldConfig
        \<and> (lacks rt fieldConfig ''column'' \<or> lacks rt fieldConfig ''name'')"
  obtain errs0 where s: "validate_settings rt this [] = (errs0, None)"
    using a validate_settings_readable [of rt this] by (cases "validate_settings rt this []") auto
  from a have nn: "\<not> nullish this" by (simp add: settings_readable_def)
  have "field_error fieldName
          \<in> set (fst (validate_fields rt (before @ (fieldName, fieldConfig) # after) errs0))"
    using a by (intro validate_fields_reports) auto
  then have "field_error fieldName \<in> set (fst (validate_body rt this))"
    using a nn s by (simp add: validate_body_def and_then_def custom_fields_entries)
  moreover obtain errs where e: "Config_validate rt this = Inr errs"
    using validate_never_throws by blast
  ultimately have "field_error fieldName \<in> set errs"
    using validate_result_set by blast
  with e show "\<exists>errs. Config_validate rt this = Inr errs \<and> field_error fieldName \<in> set errs"
    by blast
next
  assume a: "settings_complete rt this
        \<and> Object_entries (property rt this ''CUSTOM_FIELDS'') = Inr fs
        \<and> (\<forall>p \<in> set fs. field_complete rt (snd p))"
  then have nn: "\<not> nullish this" by (simp add: settings_complete_def settings_readable_def)
  from a show "Config_validate rt this = Inr []"
    by (simp add: Config_validate_def validate_body_def validate_settings_complete and_then_def
        custom_fields_entries [OF nn] validate_fields_complete)
qed

text \<open>
  The theorem at work: on \<^verbatim>\<open>Config\<close> after \<^verbatim>\<open>Config.set('CUSTOM_FIELDS.EXTRA.column',
  'P')\<close> the list names the field \<^verbatim>\<open>EXTRA\<close>, which has no name, and on \<^verbatim>\<open>Config\<close> as
  written the list is empty.
\<close>

theorem validate_reports_witness:
  "settings_readable bare_runtime Config_extra_field
   \<and> Object_entries (property bare_runtime Config_extra_field ''CUSTOM_FIELDS'') =
       Inr ([(''PRIORITY'', property bare_runtime Config_CUSTOM_FIELDS ''PRIORITY''),
             (''NOTES'', property bare_runtime Config_CUSTOM_FIELDS ''NOTES'')]
            @ (''EXTRA'', JObj [(''column'', JStr ''P'')]) # [])
   \<and> lacks bare_runtime (JObj [(''column'', JStr ''P'')]) ''name''
   \<and> (\<exists>errs. Config_validate bare_runtime Config_extra_field = Inr errs
              \<and> field_error ''EXTRA'' \<in> set errs)
   \<and> settings_complete bare_runtime Config
   \<and> Object_entries (property bare_runtime Config ''CUSTOM_FIELDS'') =
       Inr [(''PRIORITY'', property bare_runtime Config_CUSTOM_FIELDS ''PRIORITY''),
            (''NOTES'', property bare_runtime Config_CUSTOM_FIELDS ''NOTES'')]
   \<and> Config_validate bare_runtime Config = Inr []"
proof -
  have r: "settings_readable bare_runtime Config_extra_field" by code_simp
  have e: "Object_entries (property bare_runtime Config_extra_field ''CUSTOM_FIELDS'') =
       Inr ([(''PRIORITY'', property bare_runtime Config_CUSTOM_FIELDS ''PRIORITY''),
             (''NOTES'', property bare_runtime Config_CUSTOM_FIELDS ''NOTES'')]
            @ (''EXTRA'', JObj [(''column'', JStr ''P'')]) # [])" by code_simp
  have b: "\<forall>p \<in> set [(''PRIORITY'', property bare_runtime Config_CUSTOM_FIELDS ''PRIORITY''),
             (''NOTES'', property bare_runtime Config_CUSTOM_FIELDS ''NOTES'')]. \<not> nullish (snd p)"
    by code_simp
  have n: "\<not> nullish (JObj [(''column'', JStr ''P'')])" by code_simp
  have l: "lacks bare_runtime (JObj [(''column'', JStr ''P'')]) ''name''" by code_simp
  have c: "settings_complete bare_runtime Config" by code_simp
  have f: "Object_entries (property bare_runtime Config ''CUSTOM_FIELDS'') =
       Inr [(''PRIORITY'', property bare_runtime Config_CUSTOM_FIELDS ''PRIORITY''),
            (''NOTES'', property bare_runtime Config_CUSTOM_FIELDS ''NOTES'')]" by code_simp
  have g: "\<forall>p \<in> set [(''PRIORITY'', property bare_runtime Config_CUSTOM_FIELDS ''PRIORITY''),
             (''NOTES'', property bare_runtime Config_CUSTOM_FIELDS ''NOTES'')].
             field_complete bare_runtime (snd p)"
    by code_simp
  have one: "\<exists>errs. Config_validate bare_runtime Config_extra_field = Inr errs
              \<and> field_error ''EXTRA'' \<in> set errs"
    using validate_reports [of bare_runtime Config_extra_field
        "[(''PRIORITY'', property bare_runtime Config_CUSTOM_FIELDS ''PRIORITY''),
          (''NOTES'', property bare_runtime Config_CUSTOM_FIELDS ''NOTES'')]"
        "''EXTRA''" "JObj [(''column'', JStr ''P'')]" "[]"] r e b n l
    by blast
  have two: "Config_validate bare_runtime Config = Inr []"
    using validate_reports [of bare_runtime Config _ _ _ _
        "[(''PRIORITY'', property bare_runtime Config_CUSTOM_FIELDS ''PRIORITY''),
          (''NOTES'', property bare_runtime Config_CUSTOM_FIELDS ''NOTES'')]"] c f g
    by blast
  from r e l one c f two show ?thesis by blast
qed

text \<open>
  The claim as stated fails when a check throws before the field is reached: after
  \<^verbatim>\<open>Config.set('CUSTOM_FIELDS.BROKEN', null)\<close> and \<^verbatim>\<open>Config.set('CUSTOM_FIELDS.EXTRA.column',
  'P')\<close>, the field \<^verbatim>\<open>EXTRA\<close> has no name, and the list holds only the message of the
  \<^verbatim>\<open>catch\<close>.
\<close>

theorem validate_stops_at_null_field:
  "entry_keys (property bare_runtime Config_broken_field ''CUSTOM_FIELDS'') =
     Inr [''PRIORITY'', ''NOTES'', ''BROKEN'', ''EXTRA'']
   \<and> lacks bare_runtime
        (property bare_runtime (property bare_runtime Config_broken_field ''CUSTOM_FIELDS'') ''EXTRA'')
        ''name''
   \<and> Config_validate bare_runtime Config_broken_field =
       Inr [''Configuration validation error: Cannot read properties of null (reading ''
            @ quoted ''column'' @ '')'']
   \<and> field_error ''EXTRA''
       \<notin> set [''Configuration validation error: Cannot read properties of null (reading ''
               @ quoted ''column'' @ '')'']"
  by code_simp

section \<open>Config.set and then Config.get\<close>

lemma map_of_replace_property:
  "map_of ps k \<noteq> None \<Longrightarrow> map_of (replace_property k x ps) k = Some x"
  by (induction ps) (auto simp: replace_property_def)

lemma plain_path_empty: "plain_path (JObj []) ks"
  by (cases ks) simp_all

lemma get_step:
  "map_of ps k = Some x \<Longrightarrow> get_loop rt (JObj ps) (k # ks) d = get_loop rt x ks d"
  by (simp add: lookup_def)

lemma set_step_fresh:
  assumes "map_of ps k = None \<or> (\<exists>x. map_of ps k = Some x \<and> typeof x \<noteq> ''object'')"
    and "inherits_no_object rt k"
  shows "set_loop rt (JObj ps) (k # ks) lastKey v =
     (case set_loop rt (JObj []) ks lastKey v of
        Inl e \<Rightarrow> Inl e
      | Inr child1 \<Rightarrow> Inr (JObj (replace_property k child1 (AList.update k (JObj []) ps))))"
proof (cases "map_of ps k")
  case None
  show ?thesis
  proof (cases "inherited rt (JObj ps) k")
    case n: None
    show ?thesis by (simp add: lookup_def None n update_conv' split: sum.splits)
  next
    case (Some y)
    with assms(2) have "typeof y \<noteq> ''object''" by (auto simp: inherits_no_object_def)
    then show ?thesis by (simp add: lookup_def None Some update_conv' split: sum.splits)
  qed
next
  case (Some x)
  with assms(1) have "typeof x \<noteq> ''object''" by auto
  then show ?thesis by (simp add: lookup_def Some update_conv' split: sum.splits)
qed

lemma set_step_kept:
  assumes "map_of ps k = Some x" and "typeof x = ''object''"
  shows "set_loop rt (JObj ps) (k # ks) lastKey v =
     (case set_loop rt x ks lastKey v of
        Inl e \<Rightarrow> Inl e
      | Inr child1 \<Rightarrow> Inr (JObj (replace_property k child1 ps)))"
  using assms by (simp add: lookup_def split: sum.splits)

lemma set_loop_get_loop:
  "plain_path cur keys \<Longrightarrow> \<forall>k \<in> set keys. inherits_no_object rt k
     \<Longrightarrow> \<exists>cur1. set_loop rt cur keys lastKey v = Inr cur1
            \<and> get_loop rt cur1 (keys @ [lastKey]) d = Inr v"
proof (induction keys arbitrary: cur)
  case Nil
  then obtain ps where c: "cur = JObj ps" by (cases cur) simp_all
  show ?case by (simp add: c lookup_def update_conv')
next
  case (Cons k ks)
  then obtain ps where c: "cur = JObj ps" by (cases cur) simp_all
  from Cons.prems(2) have i: "inherits_no_object rt k"
    and rest: "\<forall>k \<in> set ks. inherits_no_object rt k" by simp_all
  show ?case
  proof (cases "\<exists>x. map_of ps k = Some x \<and> typeof x = ''object''")
    case True
    then obtain x where x: "map_of ps k = Some x" and t: "typeof x = ''object''" by blast
    with Cons.prems(1) have p: "plain_path x ks" by (simp add: c)
    from Cons.IH [OF p rest] obtain child1 where
      s: "set_loop rt x ks lastKey v = Inr child1"
      and g: "get_loop rt child1 (ks @ [lastKey]) d = Inr v" by blast
    have m: "map_of (replace_property k child1 ps) k = Some child1"
      by (rule map_of_replace_property) (simp add: x)
    show ?thesis
    proof (intro exI conjI)
      show "set_loop rt cur (k # ks) lastKey v = Inr (JObj (replace_property k child1 ps))"
        by (simp only: c set_step_kept [OF x t] s sum.case)
      show "get_loop rt (JObj (replace_property k child1 ps)) ((k # ks) @ [lastKey]) d = Inr v"
        by (simp only: append_Cons get_step [OF m] g)
    qed
  next
    case False
    then have f: "map_of ps k = None \<or> (\<exists>x. map_of ps k = Some x \<and> typeof x \<noteq> ''object'')"
      by (cases "map_of ps k") auto
    from Cons.IH [OF plain_path_empty rest] obtain child1 where
      s: "set_loop rt (JObj []) ks lastKey v = Inr child1"
      and g: "get_loop rt child1 (ks @ [lastKey]) d = Inr v" by blast
    have m: "map_of (replace_property k child1 (AList.update k (JObj []) ps)) k = Some child1"
      by (rule map_of_replace_property) (simp add: update_conv')
    show ?thesis
    proof (intro exI conjI)
      show "set_loop rt cur (k # ks) lastKey v
              = Inr (JObj (replace_property k child1 (AList.update k (JObj []) ps)))"
        by (simp only: c set_step_fresh [OF f i] s sum.case)
      show "get_loop rt (JObj (replace_property k child1 (AList.update k (JObj []) ps)))
              ((k # ks) @ [lastKey]) d = Inr v"
        by (simp only: append_Cons get_step [OF m] g)
    qed
  qed
qed

lemma split_on_not_empty: "split_on c s \<noteq> []"
  by (induction s) (auto split: list.splits)

lemma pop_key_snoc: "ks \<noteq> [] \<Longrightarrow> pop_key ks = (k, init) \<Longrightarrow> ks = init @ [k]"
  by (cases ks rule: rev_cases) (auto simp: pop_key_def)

text \<open>
  Where the path stays within plain objects and none of its keys names an inherited
  object, \<^verbatim>\<open>Config.set(path, v)\<close> returns and \<^verbatim>\<open>Config.get(path, d)\<close> then gives
  \<^verbatim>\<open>v\<close>: missing levels and levels that are not of type \<^verbatim>\<open>'object'\<close> become fresh
  objects.
\<close>

lemma set_then_get:
  assumes "pop_key (split_dot path) = (lastKey, keys)"
    and "plain_path this keys"
    and "\<forall>k \<in> set (split_dot path). inherits_no_object rt k"
  shows "\<exists>this1. Config_set rt this path v = Inr this1 \<and> Config_get rt this1 path d = Inr v"
proof -
  have k: "split_dot path = keys @ [lastKey]"
    using pop_key_snoc [OF _ assms(1)] split_on_not_empty by (simp add: split_dot_def)
  with assms(3) have i: "\<forall>k \<in> set keys. inherits_no_object rt k" by simp
  from set_loop_get_loop [OF assms(2) i] obtain this1 where
    s: "set_loop rt this keys lastKey v = Inr this1"
    and g: "get_loop rt this1 (keys @ [lastKey]) (default_parameter d JNull) = Inr v" by blast
  show ?thesis
    using assms(1) by (simp add: Config_set_def Config_get_def s k g)
qed

lemma set_then_get_example:
  "pop_key (split_dot ''SYNC.RETRY.LIMIT'') = (''LIMIT'', [''SYNC'', ''RETRY''])
   \<and> plain_path Config [''SYNC'', ''RETRY'']
   \<and> (\<exists>this1. Config_set bare_runtime Config ''SYNC.RETRY.LIMIT'' (JNum 5) = Inr this1
         \<and> Config_get bare_runtime this1 ''SYNC.RETRY.LIMIT'' JNull = Inr (JNum 5))"
proof -
  have p: "pop_key (split_dot ''SYNC.RETRY.LIMIT'') = (''LIMIT'', [''SYNC'', ''RETRY''])"
    by code_simp
  have q: "plain_path Config [''SYNC'', ''RETRY'']" by code_simp
  have i: "\<forall>k \<in> set (split_dot ''SYNC.RETRY.LIMIT''). inherits_no_object bare_runtime k"
    by (simp add: inherits_no_object_def bare_runtime_def)
  from set_then_get [OF p q i] p q show ?thesis by blast
qed

text \<open>
  Claim C9, at an input where the code departs from it: a level that is null. After
  \<^verbatim>\<open>Config.set('CALENDAR.TIME_ZONE', null)\<close> the level \<^verbatim>\<open>CALENDAR.TIME_ZONE\<close> is null.
  \<^verbatim>\<open>typeof null\<close> is \<^verbatim>\<open>'object'\<close>, so \<^verbatim>\<open>Config.set('CALENDAR.TIME_ZONE.NAME', 'UTC')\<close>
  does not put a fresh object there: it throws a TypeError, and
  \<^verbatim>\<open>Config.get('CALENDAR.TIME_ZONE.NAME', 'none')\<close> yields the default.
\<close>

theorem set_below_null_throws:
  "Config_get rt Config_null_zone ''CALENDAR.TIME_ZONE'' (JStr ''none'') = Inr JNull
   \<and> Config_set rt Config_null_zone ''CALENDAR.TIME_ZONE.NAME'' (JStr ''UTC'') =
       Inl (TypeError (''Cannot set properties of null (setting '' @ quoted ''NAME'' @ '')''))
   \<and> Config_get rt Config_null_zone ''CALENDAR.TIME_ZONE.NAME'' (JStr ''none'') = Inr (JStr ''none'')"
  by code_simp

section \<open>The entry points of main.js\<close>

lemma report_failure_eq:
  "ErrorHandler_handleError svc fn error (Logger_log svc (label @ message error) w) = (r, w2)
   \<Longrightarrow> report_failure svc label fn error (calls, w) =
         (r, (calls @ [LogCall (label @ message error), HandleErrorCall fn error], w2))"
  by (simp add: report_failure_def call_log_def invoke_def)

text \<open>
  Claim C3, as the code has it. When the pass of the engine
  (\<^verbatim>\<open>SyncEngine.performFullSync\<close>) throws, \<^verbatim>\<open>performFullSync\<close> returns no status object:
  it throws to its caller. Before that it has logged \<^verbatim>\<open>Full sync failed:\<close> with the
  message of the error and handed the error to \<^verbatim>\<open>ErrorHandler.handleError\<close>; when the
  handler returns, the error thrown to the caller is the engine's own.
\<close>

theorem performFullSync_rethrows:
  assumes "fst (SyncEngine_performFullSync svc (Logger_log svc ''Starting full sync...'' w))
             = Inl error"
  shows "isl (fst (performFullSync svc (calls, w)))
    \<and> fst (snd (performFullSync svc (calls, w))) =
        calls @ [LogCall ''Starting full sync...'', PerformFullSyncCall,
                 LogCall (''Full sync failed: '' @ message error),
                 HandleErrorCall ''performFullSync'' error]
    \<and> (\<forall>handled w2.
          ErrorHandler_handleError svc ''performFullSync'' error
            (Logger_log svc (''Full sync failed: '' @ message error)
              (snd (SyncEngine_performFullSync svc (Logger_log svc ''Starting full sync...'' w))))
            = (Inr handled, w2)
          \<longrightarrow> performFullSync svc (calls, w) =
                (Inl error,
                 (calls @ [LogCall ''Starting full sync...'', PerformFullSyncCall,
                           LogCall (''Full sync failed: '' @ message error),
                           HandleErrorCall ''performFullSync'' error], w2)))"
proof -
  obtain w1 where e:
    "SyncEngine_performFullSync svc (Logger_log svc ''Starting full sync...'' w) = (Inl error, w1)"
    using assms
    by (cases "SyncEngine_performFullSync svc (Logger_log svc ''Starting full sync...'' w)") simp
  have t: "performFullSync_try svc (calls, w) =
      (Inl error, (calls @ [LogCall ''Starting full sync...'', PerformFullSyncCall], w1))"
    by (simp add: performFullSync_try_def call_log_def invoke_def e)
  obtain r w2 where h: "ErrorHandler_handleError svc ''performFullSync'' error
            (Logger_log svc (''Full sync failed: '' @ message error) w1) = (r, w2)"
    by (cases "ErrorHandler_handleError svc ''performFullSync'' error
            (Logger_log svc (''Full sync failed: '' @ message error) w1)")
  show ?thesis
    using h by (cases r) (simp_all add: performFullSync_def t report_failure_eq [OF h] e)
qed

text \<open>The theorem at work, with an engine whose pass fails on a quota.\<close>

theorem performFullSync_rethrows_witness:
  "fst (SyncEngine_performFullSync example_services
          (Logger_log example_services ''Starting full sync...'' [])) =
     Inl (Error ''Service invoked too many times for one day: calendar.'')
   \<and> isl (fst (performFullSync example_services ([], [])))
   \<and> performFullSync example_services ([], []) =
       (Inl (Error ''Service invoked too many times for one day: calendar.''),
        ([LogCall ''Starting full sync...'', PerformFullSyncCall,
          LogCall ''Full sync failed: Service invoked too many times for one day: calendar.'',
          HandleErrorCall ''performFullSync''
            (Error ''Service invoked too many times for one day: calendar.'')], []))"
proof -
  have h: "fst (SyncEngine_performFullSync example_services
          (Logger_log example_services ''Starting full sync...'' [])) =
     Inl (Error ''Service invoked too many times for one day: calendar.'')"
    by (simp add: example_services_def)
  have k: "ErrorHandler_handleError example_services ''performFullSync''
       (Error ''Service invoked too many times for one day: calendar.'')
       (Logger_log example_services
          (''Full sync failed: ''
             @ message (Error ''Service invoked too many times for one day: calendar.''))
          (snd (SyncEngine_performFullSync example_services
                  (Logger_log example_services ''Starting full sync...'' []))))
      = (Inr JUndefined, [])"
    by (simp add: example_services_def)
  from performFullSync_rethrows [OF h, of "[]"] k h show ?thesis
    by simp
qed

text \<open>
  The claim as stated fails on a pass that fails: the result of \<^verbatim>\<open>performFullSync\<close> is
  an error thrown, not a value returned.
\<close>

theorem performFullSync_throws_on_failure:
  "fst (performFullSync example_services ([], [])) =
     Inl (Error ''Service invoked too many times for one day: calendar.'')
   \<and> isl (fst (performFullSync example_services ([], [])))"
  by (simp add: performFullSync_def performFullSync_try_def report_failure_def call_log_def
      invoke_def example_services_def)

text \<open>
  Claim C10. When \<^verbatim>\<open>SheetsService.isEditInSyncRange(e)\<close> returns false (or any falsy
  value), \<^verbatim>\<open>onSheetEdit(e)\<close> returns undefined. The services it has called are the two
  log lines and the range check, so it has not called \<^verbatim>\<open>SyncEngine.syncSheetsToCalendar\<close>,
  and the world is the one that the range check and the two log lines leave.
\<close>

theorem onSheetEdit_ignores_outside_edit:
  assumes "fst (SheetsService_isEditInSyncRange svc e (Logger_log svc ''Sheet edit detected'' w))
             = Inr inRange"
    and "\<not> truthy inRange"
  shows "onSheetEdit svc e (calls, w) =
      (Inr JUndefined,
       (calls @ [LogCall ''Sheet edit detected'', IsEditInSyncRangeCall e,
                 LogCall ''Edit outside sync range, ignoring''],
        Logger_log svc ''Edit outside sync range, ignoring''
          (snd (SheetsService_isEditInSyncRange svc e (Logger_log svc ''Sheet edit detected'' w)))))
    \<and> (\<forall>ev. SyncSheetsToCalendarCall ev
          \<notin> set (drop (length calls) (fst (snd (onSheetEdit svc e (calls, w))))))"
proof -
  obtain w1 where e:
    "SheetsService_isEditInSyncRange svc e (Logger_log svc ''Sheet edit detected'' w)
       = (Inr inRange, w1)"
    using assms(1)
    by (cases "SheetsService_isEditInSyncRange svc e (Logger_log svc ''Sheet edit detected'' w)")
      simp
  have t: "onSheetEdit_try svc e (calls, w) =
      (Inr JUndefined,
       (calls @ [LogCall ''Sheet edit detected'', IsEditInSyncRangeCall e,
                 LogCall ''Edit outside sync range, ignoring''],
        Logger_log svc ''Edit outside sync range, ignoring'' w1))"
    using assms(2) by (simp add: onSheetEdit_try_def call_log_def invoke_def e)
  show ?thesis
    by (simp add: onSheetEdit_def t e)
qed

text \<open>
  The theorem at work: an edit outside the range, with an engine that would record every
  event it syncs. It records none.
\<close>

theorem onSheetEdit_ignores_witness:
  "fst (SheetsService_isEditInSyncRange example_services outside_edit
          (Logger_log example_services ''Sheet edit detected'' [])) = Inr (JBool False)
   \<and> \<not> truthy (JBool False)
   \<and> onSheetEdit example_services outside_edit ([], []) =
       (Inr JUndefined,
        ([LogCall ''Sheet edit detected'', IsEditInSyncRangeCall outside_edit,
          LogCall ''Edit outside sync range, ignoring''], []))"
proof -
  have h: "fst (SheetsService_isEditInSyncRange example_services outside_edit
          (Logger_log example_services ''Sheet edit detected'' [])) = Inr (JBool False)"
    by (simp add: example_services_def outside_edit_def property_def lookup_def)
  have f: "\<not> truthy (JBool False)" by simp
  from onSheetEdit_ignores_outside_edit [OF h f, of "[]"] h show ?thesis
    by (simp add: example_services_def)
qed

section \<open>The conflict resolver and the lock, as the specification describes them\<close>

text \<open>
  Claim C1. For a \<^verbatim>\<open>CONFLICT\<close> operation on one id with a calendar-side and a sheet-side
  record, \<^verbatim>\<open>resolve\<close> under \<^verbatim>\<open>LAST_WRITE_WINS\<close> gives an \<^verbatim>\<open>UPDATE\<close> for that id. When
  the sheet-side record has the larger \<^verbatim>\<open>lastModifiedAt\<close>, the update goes toward the
  calendar and carries the sheet-side record; otherwise, so also on a tie, it goes toward
  the sheet and carries the calendar-side record. The record carried has the larger of
  the two timestamps, the side written to the older one.
\<close>

theorem resolve_last_write_wins:
  assumes "is_conflict op"
  shows "\<exists>r. resolve op LAST_WRITE_WINS = Some r
     \<and> op_id r = op_id op
     \<and> kind r = UPDATE
     \<and> (if lastModifiedAt (side_record Calendar op) < lastModifiedAt (side_record Sheet op)
         then fst (target r) = Calendar
              \<and> source r = (Sheet, (side_record Sheet op)\<lparr> syncStatus := SYNCED \<rparr>)
         else fst (target r) = Sheet
              \<and> source r = (Calendar, (side_record Calendar op)\<lparr> syncStatus := SYNCED \<rparr>))
     \<and> lastModifiedAt (snd (target r)) \<le> lastModifiedAt (snd (source r))
     \<and> lastModifiedAt (snd (source r))
         = max (lastModifiedAt (side_record Calendar op)) (lastModifiedAt (side_record Sheet op))"
  using assms
  by (simp add: resolve_def winner_def other_side_def Let_def)

text \<open>The theorem at work: the calendar-side record is the fresher one.\<close>

theorem resolve_last_write_wins_witness:
  "is_conflict example_conflict
   \<and> resolve example_conflict LAST_WRITE_WINS =
       Some \<lparr> op_id = ''E1'', kind = UPDATE,
              source = (Calendar,
                (example_record 200 ''from the calendar'')\<lparr> syncStatus := SYNCED \<rparr>),
              target = (Sheet, example_record 100 ''from the sheet'') \<rparr>"
proof -
  have c: "is_conflict example_conflict"
    by (simp add: is_conflict_def example_conflict_def example_record_def)
  from resolve_last_write_wins [OF c] c show ?thesis
    by (auto simp: resolve_def winner_def side_record_def other_side_def example_conflict_def
        example_record_def)
qed

text \<open>
  Claim C4. When the lock is held at the start of a pass (taken less than the maximum
  hold duration ago), the pass ends at once: its summary is \<^verbatim>\<open>SKIPPED_CONCURRENT_RUN\<close>
  with every counter 0, which is not a failure, and the shared state (the lock of the
  pass in flight, the mapping, the cursor) is as it was.
\<close>

theorem held_lock_skips_pass:
  assumes "lock_held now ttl (sync_lock st)"
  shows "runFullPass now ttl pipeline st = (skipped_summary, st)
     \<and> status skipped_summary = SKIPPED_CONCURRENT_RUN
     \<and> (\<forall>cause. status skipped_summary \<noteq> FAILED cause)
     \<and> created skipped_summary = 0 \<and> updated skipped_summary = 0
     \<and> deleted skipped_summary = 0 \<and> conflicts skipped_summary = 0
     \<and> errors skipped_summary = 0 \<and> skipped skipped_summary = 0"
  using assms
  by (auto simp: runFullPass_def tryAcquire_def lock_held_def skipped_summary_def
      split: option.splits)

text \<open>
  The theorem at work: a lock taken at time 100 with a hold duration of 600, a second
  pass at time 130 whose steps would have created a record.
\<close>

theorem held_lock_skips_pass_witness:
  "lock_held 130 600
     (sync_lock \<lparr> sync_lock = Some 100, mapping = [(''E1'', 2::nat)], cursor = (90::int) \<rparr>)
   \<and> runFullPass 130 600
        (\<lambda>(m, c). (skipped_summary\<lparr> status := COMPLETED, created := 1 \<rparr>, [], 130))
        \<lparr> sync_lock = Some 100, mapping = [(''E1'', 2::nat)], cursor = (90::int) \<rparr>
      = (skipped_summary,
         \<lparr> sync_lock = Some 100, mapping = [(''E1'', 2::nat)], cursor = (90::int) \<rparr>)"
proof -
  have h: "lock_held 130 600
     (sync_lock \<lparr> sync_lock = Some 100, mapping = [(''E1'', 2::nat)], cursor = (90::int) \<rparr>)"
    by (simp add: lock_held_def)
  from held_lock_skips_pass [OF h] h show ?thesis by simp
qed

end
